theory Spec2Isabelle
  imports Complex_Main "HOL-Library.Multiset"
begin

section \<open>Data model of the dashboard\<close>

text \<open>
  The dashboard (\<^verbatim>\<open>Dashboard.jsx\<close>) receives the active dataset as the prop
  \<^verbatim>\<open>uploadData\<close> and keeps this state: \<^verbatim>\<open>activeTab\<close>, \<^verbatim>\<open>history\<close>,
  \<^verbatim>\<open>realtimeData\<close>, \<^verbatim>\<open>isSimulating\<close> and \<^verbatim>\<open>playbackIndex\<close>. JavaScript numbers that
  hold measurements are modelled by their mathematical value (a \<open>real\<close>); a field
  that may be missing or \<^verbatim>\<open>null\<close> is a \<open>jsnum\<close> or an \<open>option\<close>.
\<close>

datatype jsnum = Undefined | Null | Num real

record equipment =
  name :: string
  etype :: string
  flowrate :: real
  pressure :: real
  temperature :: real
  health_score :: real

record dataset =
  ds_id :: nat
  total_equipment :: nat
  avg_flowrate :: jsnum
  avg_pressure :: jsnum
  avg_health_score :: jsnum
  equipment_type_distribution :: "(string \<times> real) list option"
  equipment_data :: "equipment list option"

record history_entry =
  h_id :: nat
  h_uploaded_at :: string
  h_total_equipment :: nat
  h_avg_health_score :: real
  h_avg_flowrate :: real
  h_avg_pressure :: real

text \<open>A point of the realtime chart; \<open>pt_name\<close> is only set when a record is replayed.\<close>

record point =
  pt_time :: string
  pt_flow :: real
  pt_pressure :: real
  pt_temp :: real
  pt_name :: "string option"

record dashboard =
  activeTab :: string
  history :: "history_entry list"
  realtimeData :: "point list"
  isSimulating :: bool
  playbackIndex :: nat

text \<open>The values of the \<^verbatim>\<open>useState\<close> initialisers.\<close>

definition initial_dashboard :: dashboard where
  "initial_dashboard =
     \<lparr>activeTab = ''overview'', history = [], realtimeData = [],
      isSimulating = True, playbackIndex = 0\<rparr>"

section \<open>JavaScript built-ins\<close>

text \<open>
  \<^verbatim>\<open>Array.prototype.sort(compareFn)\<close> is a built-in of the language, not code of the
  repository. ECMAScript specifies it as a sort of the array itself (in place), stable,
  by the sign of \<^verbatim>\<open>compareFn(a, b)\<close>, a \<^verbatim>\<open>NaN\<close> result counting as \<open>+0\<close>; for a
  consistent comparator this fixes the result. The model is the stable insertion by
  the comparator's sign. It returns the new contents of the array that was sorted.
  The two comparators of the repository are differences of finite numbers; the sign of
  such a difference, as the machine computes it, is the sign of the exact difference.
\<close>

fun sort_insert :: "('a \<Rightarrow> 'a \<Rightarrow> real) \<Rightarrow> 'a \<Rightarrow> 'a list \<Rightarrow> 'a list" where
  "sort_insert compareFn x [] = [x]"
| "sort_insert compareFn x (y # ys) =
     (if compareFn x y \<le> 0 then x # y # ys else y # sort_insert compareFn x ys)"

definition js_sort :: "('a \<Rightarrow> 'a \<Rightarrow> real) \<Rightarrow> 'a list \<Rightarrow> 'a list" where
  "js_sort compareFn xs = foldr (sort_insert compareFn) xs []"

text \<open>The digits of a natural number, as in the decimal representation of a number.\<close>

definition digit_char :: "nat \<Rightarrow> char" where
  "digit_char d = ''0123456789'' ! d"

function digits :: "nat \<Rightarrow> string" where
  "digits n = (if n < 10 then [digit_char n] else digits (n div 10) @ [digit_char (n mod 10)])"
  by pat_completeness auto
termination
  by (relation "measure (\<lambda>n. n)") auto

declare digits.simps [simp del]

text \<open>
  \<^verbatim>\<open>Number.prototype.toFixed(0)\<close> on a finite number, after ECMAScript: the sign is
  split off; from \<open>10^21\<close> on the result is the general number-to-string conversion
  (the parameter \<open>numToString\<close>, applied to the magnitude); below, it is the digits of
  the integer nearest to the magnitude, the larger one on a tie.
\<close>

definition toFixed0 :: "(real \<Rightarrow> string) \<Rightarrow> real \<Rightarrow> string" where
  "toFixed0 numToString x =
     (let s = (if x < 0 then ''-'' else []);
          x' = (if x < 0 then - x else x);
          m = (if x' \<ge> 10 ^ 21 then numToString x' else digits (nat \<lfloor>x' + 1 / 2\<rfloor>))
      in s @ m)"

text \<open>\<^verbatim>\<open>v || c\<close> and \<^verbatim>\<open>v < c\<close> for a field \<open>v\<close> that is a number, \<^verbatim>\<open>null\<close> or missing.\<close>

definition js_or_num :: "jsnum \<Rightarrow> real \<Rightarrow> real" where
  "js_or_num v c = (case v of Num x \<Rightarrow> if x = 0 then c else x | Null \<Rightarrow> c | Undefined \<Rightarrow> c)"

definition js_lt_num :: "jsnum \<Rightarrow> real \<Rightarrow> bool" where
  "js_lt_num v c = (case v of Num x \<Rightarrow> x < c | Null \<Rightarrow> 0 < c | Undefined \<Rightarrow> False)"

text \<open>
  Reading a string of decimal digits back as a number; \<open>digits\<close> is checked against it
  below.
\<close>

definition decimal_value :: "string \<Rightarrow> nat" where
  "decimal_value cs = foldl (\<lambda>a c. 10 * a + (of_char c - 48)) 0 cs"

section \<open>The realtime simulation\<close>

text \<open>
  What one run of the interval callback reads from outside the program: the label
  \<^verbatim>\<open>now.toLocaleTimeString()\<close> and the three results of \<^verbatim>\<open>Math.random()\<close>, in the
  order in which the fallback branch draws them.
\<close>

record tick_env =
  now_label :: string
  rand_flow :: real
  rand_pressure :: real
  rand_temp :: real

text \<open>
  The condition of line 50:
  \<^verbatim>\<open>uploadData && uploadData.equipment_data && uploadData.equipment_data.length > 0\<close>.
  It yields the records to replay, or nothing.
\<close>

definition playable :: "dataset option \<Rightarrow> equipment list option" where
  "playable uploadData =
     (case uploadData of
        None \<Rightarrow> None
      | Some d \<Rightarrow>
          (case equipment_data d of
             None \<Rightarrow> None
           | Some eq \<Rightarrow> if length eq > 0 then Some eq else None))"

text \<open>The index expression \<^verbatim>\<open>playbackIndex % uploadData.equipment_data.length\<close>.\<close>

definition playback_position :: "equipment list \<Rightarrow> nat \<Rightarrow> nat" where
  "playback_position eq idx = idx mod length eq"

text \<open>The two ways a new point is made (lines 53 to 59 and 63 to 68).\<close>

definition replay_point :: "tick_env \<Rightarrow> equipment \<Rightarrow> point" where
  "replay_point e dataItem =
     \<lparr>pt_time = now_label e, pt_flow = flowrate dataItem, pt_pressure = pressure dataItem,
      pt_temp = temperature dataItem, pt_name = Some (name dataItem)\<rparr>"

definition random_point :: "tick_env \<Rightarrow> point" where
  "random_point e =
     \<lparr>pt_time = now_label e, pt_flow = 45 + rand_flow e * 10,
      pt_pressure = 8 + rand_pressure e * 4, pt_temp = 58 + rand_temp e * 5,
      pt_name = None\<rparr>"

definition new_point :: "dataset option \<Rightarrow> tick_env \<Rightarrow> nat \<Rightarrow> point" where
  "new_point uploadData e idx =
     (case playable uploadData of
        Some eq \<Rightarrow> replay_point e (eq ! playback_position eq idx)
      | None \<Rightarrow> random_point e)"

text \<open>
  Lines 71 to 73: \<^verbatim>\<open>const newData = [...prev, newPoint];
  if (newData.length > 20) newData.shift(); return newData;\<close>
\<close>

definition push_point :: "point list \<Rightarrow> point \<Rightarrow> point list" where
  "push_point prev newPoint =
     (let newData = prev @ [newPoint]
      in if length newData > 20 then tl newData else newData)"

text \<open>
  One firing of the interval: the updater of \<^verbatim>\<open>setRealtimeData\<close> runs once, and in
  the replay branch it also queues \<^verbatim>\<open>setPlaybackIndex(idx => idx + 1)\<close>. The effect
  lists \<^verbatim>\<open>playbackIndex\<close> among its dependencies, so every firing reads the current
  index. The index counts firings, one a second, and stays an exact integer.
\<close>

definition tick :: "dataset option \<Rightarrow> tick_env \<Rightarrow> dashboard \<Rightarrow> dashboard" where
  "tick uploadData e s =
     (let newPoint = new_point uploadData e (playbackIndex s);
          s' = (case playable uploadData of
                  Some eq \<Rightarrow> s\<lparr>playbackIndex := playbackIndex s + 1\<rparr>
                | None \<Rightarrow> s)
      in s'\<lparr>realtimeData := push_point (realtimeData s) newPoint\<rparr>)"

text \<open>A sequence of firings, and the points they produce, in arrival order.\<close>

fun run_ticks :: "dataset option \<Rightarrow> tick_env list \<Rightarrow> dashboard \<Rightarrow> dashboard" where
  "run_ticks uploadData [] s = s"
| "run_ticks uploadData (e # es) s = run_ticks uploadData es (tick uploadData e s)"

fun arrivals :: "dataset option \<Rightarrow> tick_env list \<Rightarrow> nat \<Rightarrow> point list" where
  "arrivals uploadData [] idx = []"
| "arrivals uploadData (e # es) idx =
     new_point uploadData e idx #
     arrivals uploadData es (case playable uploadData of Some eq \<Rightarrow> idx + 1 | None \<Rightarrow> idx)"

text \<open>The guard of the simulation effect (line 44): the interval exists only under it.\<close>

definition interval_running :: "dashboard \<Rightarrow> bool" where
  "interval_running s = (activeTab s = ''realtime'' \<and> isSimulating s)"

text \<open>
  The effect of lines 35 to 40, run when the prop \<^verbatim>\<open>uploadData\<close> changes: both setters
  are called in the same callback, under the same test.
\<close>

definition upload_effect :: "dataset option \<Rightarrow> dashboard \<Rightarrow> dashboard" where
  "upload_effect uploadData s =
     (case uploadData of
        Some d \<Rightarrow> s\<lparr>realtimeData := [], playbackIndex := 0\<rparr>
      | None \<Rightarrow> s)"

section \<open>Requests, dialogs and downloads\<close>

text \<open>
  What the handlers do to the outside, in program order. A callback deferred by
  \<^verbatim>\<open>setTimeout\<close> is recorded with its delay and its own effects.
\<close>

datatype effect =
  Confirm string
| Alert string
| ConsoleError string
| HttpGet string
| HttpDelete string
| ReadAsText
| CreateObjectURL
| ClickDownloadLink string
| RemoveLink
| RevokeObjectURL
| SetTimeout nat "effect list"

text \<open>
  \<^verbatim>\<open>fetchHistory\<close> (lines 80 to 87): \<open>res\<close> is the list the request resolved with, or
  \<open>None\<close> when it was rejected.
\<close>

definition fetchHistory :: "history_entry list option \<Rightarrow> dashboard \<Rightarrow> effect list \<times> dashboard" where
  "fetchHistory res s =
     (case res of
        Some data \<Rightarrow> ([HttpGet ''datasets/history/''], s\<lparr>history := data\<rparr>)
      | None \<Rightarrow> ([HttpGet ''datasets/history/'', ConsoleError ''Failed to fetch history''], s))"

text \<open>
  Dataset ids are database keys, printed by a template literal; for the integers below
  \<open>10^21\<close>, which print in plain notation, this is \<open>digits\<close>.
\<close>

definition confirm_message :: "nat \<Rightarrow> string" where
  "confirm_message dsid =
     ''Are you sure you want to delete dataset #'' @ digits dsid @ ''? This action cannot be undone.''"

definition delete_url :: "nat \<Rightarrow> string" where
  "delete_url dsid = ''datasets/'' @ digits dsid @ ''/''"

text \<open>
  \<^verbatim>\<open>handleDeleteDataset\<close> (lines 89 to 100): \<open>confirmed\<close> is the answer of
  \<^verbatim>\<open>window.confirm\<close>, \<open>deleted\<close> tells whether the delete request resolved, and \<open>res\<close>
  is the outcome of the history request that follows a successful delete.
\<close>

definition handleDeleteDataset ::
  "nat \<Rightarrow> bool \<Rightarrow> bool \<Rightarrow> history_entry list option \<Rightarrow> dashboard \<Rightarrow> effect list \<times> dashboard" where
  "handleDeleteDataset dsid confirmed deleted res s =
     (if \<not> confirmed then ([Confirm (confirm_message dsid)], s)
      else if deleted
      then (Confirm (confirm_message dsid) # HttpDelete (delete_url dsid) # fst (fetchHistory res s),
            snd (fetchHistory res s))
      else ([Confirm (confirm_message dsid), HttpDelete (delete_url dsid),
             ConsoleError ''Failed to delete dataset'',
             Alert ''Failed to delete dataset. Please try again.''], s))"

text \<open>
  A parsed JSON value, and \<^verbatim>\<open>undefined\<close> for a property that is not there. The blob of a
  response has a declared type and its bytes; \<^verbatim>\<open>size\<close> is their number.
\<close>

datatype jsval =
  JUndefined
| JNull
| JBool bool
| JNum real
| JStr string
| JArr "jsval list"
| JObj "(string \<times> jsval) list"

record blob =
  blob_type :: string
  blob_bytes :: string

text \<open>
  The request of line 104 resolves with a blob, or is rejected; the rejection carries
  \<^verbatim>\<open>err.response.status\<close> when there was a response.
\<close>

datatype fetch_outcome = Resolved blob | Rejected "nat option"

text \<open>
  \<^verbatim>\<open>errObj.error\<close>: reading a property of \<^verbatim>\<open>null\<close> throws a \<^verbatim>\<open>TypeError\<close> (\<open>None\<close>); an
  object yields the property or \<^verbatim>\<open>undefined\<close>; a number, a string, a boolean or an array
  has no property of that name.
\<close>

definition property_error :: "jsval \<Rightarrow> jsval option" where
  "property_error errObj =
     (case errObj of
        JNull \<Rightarrow> None
      | JUndefined \<Rightarrow> None
      | JObj kvs \<Rightarrow> Some (case map_of kvs ''error'' of Some x \<Rightarrow> x | None \<Rightarrow> JUndefined)
      | _ \<Rightarrow> Some JUndefined)"

definition js_truthy :: "jsval \<Rightarrow> bool" where
  "js_truthy v =
     (case v of
        JUndefined \<Rightarrow> False
      | JNull \<Rightarrow> False
      | JBool b \<Rightarrow> b
      | JNum x \<Rightarrow> x \<noteq> 0
      | JStr s \<Rightarrow> s \<noteq> []
      | JArr xs \<Rightarrow> True
      | JObj kvs \<Rightarrow> True)"

text \<open>
  A value inside a template literal is converted to a string: a string is itself; for
  the other values the conversion of the language is the parameter \<open>toStr\<close>. The
  conversion of an object can throw a \<^verbatim>\<open>TypeError\<close> (\<open>None\<close>), as for an object whose
  own \<^verbatim>\<open>toString\<close> property is not a function.
\<close>

definition template_string :: "(jsval \<Rightarrow> string option) \<Rightarrow> jsval \<Rightarrow> string option" where
  "template_string toStr v = (case v of JStr s \<Rightarrow> Some s | _ \<Rightarrow> toStr v)"

definition report_url :: "nat \<Rightarrow> string" where
  "report_url dsid = ''reports/'' @ digits dsid @ ''/pdf/''"

definition report_filename :: "nat \<Rightarrow> string" where
  "report_filename dsid = ''Analysis_Report_#'' @ digits dsid @ ''.pdf''"

text \<open>The test of line 112.\<close>

definition possibly_error :: "blob \<Rightarrow> bool" where
  "possibly_error b = (blob_type b = ''application/json'' \<or> length (blob_bytes b) < 500)"

text \<open>
  \<^verbatim>\<open>handleDownloadReport\<close> (lines 102 to 157). \<open>jsonParse\<close> stands for
  \<^verbatim>\<open>JSON.parse\<close> on the text read from the blob, \<open>None\<close> when it throws. The \<^verbatim>\<open>catch\<close> of
  line 118 encloses both the parse and the \<^verbatim>\<open>alert\<close> with its argument, so it also
  catches the \<^verbatim>\<open>TypeError\<close> of \<^verbatim>\<open>errObj.error\<close> and the one of the template literal's
  string conversion; the argument is evaluated before \<^verbatim>\<open>alert\<close> is called.
\<close>

definition handleDownloadReport ::
  "(string \<Rightarrow> jsval option) \<Rightarrow> (jsval \<Rightarrow> string option) \<Rightarrow> nat \<Rightarrow> fetch_outcome \<Rightarrow>
   effect list" where
  "handleDownloadReport jsonParse toStr dsid outcome =
     (case outcome of
        Rejected status \<Rightarrow>
          [HttpGet (report_url dsid), ConsoleError ''Failed to download PDF'',
           Alert (''Failed to download report.'' @
                  (case status of
                     None \<Rightarrow> []
                   | Some c \<Rightarrow> '' (Server Status: '' @ digits c @ '')''))]
      | Resolved b \<Rightarrow>
          if possibly_error b
          then HttpGet (report_url dsid) # ReadAsText #
            (let save = [CreateObjectURL, ClickDownloadLink (report_filename dsid),
                         RemoveLink, RevokeObjectURL]
             in case jsonParse (blob_bytes b) of
                  None \<Rightarrow> save
                | Some errObj \<Rightarrow>
                    (case property_error errObj of
                       None \<Rightarrow> save
                     | Some e \<Rightarrow>
                         (case template_string toStr
                                 (if js_truthy e then e else JStr ''Generation failed on server.'') of
                            None \<Rightarrow> save
                          | Some message \<Rightarrow> [Alert (''Report Error: '' @ message)])))
          else [HttpGet (report_url dsid), CreateObjectURL, ClickDownloadLink (report_filename dsid),
                SetTimeout 200 [RemoveLink, RevokeObjectURL]])"

section \<open>The dashboard as a state machine\<close>

text \<open>The \<^verbatim>\<open>id\<close>s of the tab buttons rendered at lines 201 to 206.\<close>

definition tab_ids :: "string list" where
  "tab_ids = [''overview'', ''analytics'', ''comparison'', ''history'']"

text \<open>
  The test of line 159: without a dataset, and outside the history tab, the component
  renders the prompt with its two buttons instead of the tab bar.
\<close>

definition no_analysis_prompt :: "dataset option \<Rightarrow> dashboard \<Rightarrow> bool" where
  "no_analysis_prompt uploadData s = (uploadData = None \<and> activeTab s \<noteq> ''history'')"

text \<open>
  What can happen to a dashboard: a click on the \<open>i\<close>-th tab button (line 209), a
  click on "View History" in the prompt (line 173), a click on a delete button of the
  history table with the answers of the dialog and of the server, the arrival of the
  history requested on mount, a new value of the prop \<^verbatim>\<open>uploadData\<close>, a fresh mount of
  the component (the application unmounts it while the upload view is shown), and a
  firing of the interval, which exists only while \<open>interval_running\<close> holds. A button
  that is not rendered cannot be clicked. \<^verbatim>\<open>setActiveTab\<close> is called nowhere else, and
  \<^verbatim>\<open>setIsSimulating\<close> is never called.
\<close>

datatype ui_event =
  ClickTab nat
| ClickViewHistory
| ClickDelete nat bool bool "history_entry list option"
| HistoryArrives "history_entry list option"
| PropChange "dataset option"
| Remount "dataset option"
| TimerFires tick_env

fun ui_step :: "dataset option \<times> dashboard \<Rightarrow> ui_event \<Rightarrow> dataset option \<times> dashboard" where
  "ui_step (u, s) (ClickTab i) =
     (if \<not> no_analysis_prompt u s \<and> i < length tab_ids
      then (u, s\<lparr>activeTab := tab_ids ! i\<rparr>) else (u, s))"
| "ui_step (u, s) ClickViewHistory =
     (if no_analysis_prompt u s then (u, s\<lparr>activeTab := ''history''\<rparr>) else (u, s))"
| "ui_step (u, s) (ClickDelete dsid confirmed deleted res) =
     (if activeTab s = ''history''
      then (u, snd (handleDeleteDataset dsid confirmed deleted res s)) else (u, s))"
| "ui_step (u, s) (HistoryArrives res) = (u, snd (fetchHistory res s))"
| "ui_step (u, s) (PropChange u') = (u', upload_effect u' s)"
| "ui_step (u, s) (Remount u') = (u', upload_effect u' initial_dashboard)"
| "ui_step (u, s) (TimerFires e) =
     (if interval_running s then (u, tick u e s) else (u, s))"

definition ui_run :: "dataset option \<Rightarrow> ui_event list \<Rightarrow> dataset option \<times> dashboard" where
  "ui_run u0 evs = foldl ui_step (u0, initial_dashboard) evs"

section \<open>The overview tab\<close>

text \<open>
  The parts of what \<^verbatim>\<open>OverviewTab\<close> renders that are derived from the dataset: the
  "System Health" card, the doughnut of equipment types, the watchlist bar chart and
  the pressure and flow line chart.
\<close>

record overview_view =
  health_value :: string
  health_color :: string
  doughnut_labels :: "string list"
  doughnut_data :: "real list"
  watch_labels :: "string list"
  watch_data :: "real list"
  watch_colors :: "string list"
  line_labels :: "string list"
  line_pressure :: "real list"
  line_flow :: "real list"

datatype 'v render = ReturnsNull | ThrowsTypeError | Rendered 'v

text \<open>Line 278: the value and the colour of the "System Health" card.\<close>

definition system_health_card :: "(real \<Rightarrow> string) \<Rightarrow> jsnum \<Rightarrow> string \<times> string" where
  "system_health_card numToString avg_health =
     (toFixed0 numToString (js_or_num avg_health 85) @ ''%'',
      if js_lt_num avg_health 70 then ''red'' else ''emerald'')"

text \<open>The comparator \<^verbatim>\<open>(a, b) => a.health_score - b.health_score\<close>.\<close>

definition health_cmp :: "equipment \<Rightarrow> equipment \<Rightarrow> real" where
  "health_cmp a b = health_score a - health_score b"

definition watch_color :: "equipment \<Rightarrow> string" where
  "watch_color e =
     (if health_score e < 50 then ''rgba(239, 68, 68, 0.7)'' else ''rgba(245, 158, 11, 0.7)'')"

text \<open>
  \<^verbatim>\<open>OverviewTab\<close> returns what it renders together with the dataset object as the call
  leaves it. The three calls \<^verbatim>\<open>equipment_data.sort(...)\<close> of lines 330 to 343 sort the
  array of the dataset itself, one after the other; \<open>a1\<close>, \<open>a2\<close>, \<open>a3\<close> are its
  contents after each. \<^verbatim>\<open>slice\<close> and \<^verbatim>\<open>map\<close> build new arrays. The line chart
  (lines 367 to 380) is evaluated after the bar chart, so it reads the array as the
  sorts left it. Without \<^verbatim>\<open>equipment_data\<close> the call \<^verbatim>\<open>.sort\<close> throws.
\<close>

definition OverviewTab ::
  "(real \<Rightarrow> string) \<Rightarrow> dataset option \<Rightarrow> overview_view render \<times> dataset option" where
  "OverviewTab numToString data =
     (case data of
        None \<Rightarrow> (ReturnsNull, None)
      | Some d \<Rightarrow>
          (case equipment_data d of
             None \<Rightarrow> (ThrowsTypeError, Some d)
           | Some a0 \<Rightarrow>
               (let card = system_health_card numToString (avg_health_score d);
                    dist = (case equipment_type_distribution d of None \<Rightarrow> [] | Some kv \<Rightarrow> kv);
                    a1 = js_sort health_cmp a0;
                    labels = map name (take 5 a1);
                    a2 = js_sort health_cmp a1;
                    scores = map health_score (take 5 a2);
                    a3 = js_sort health_cmp a2;
                    colors = map watch_color (take 5 a3)
                in (Rendered
                      \<lparr>health_value = fst card, health_color = snd card,
                       doughnut_labels = map fst dist, doughnut_data = map snd dist,
                       watch_labels = labels, watch_data = scores, watch_colors = colors,
                       line_labels = map name (take 20 a3),
                       line_pressure = map pressure (take 20 a3),
                       line_flow = map flowrate (take 20 a3)\<rparr>,
                    Some (d\<lparr>equipment_data := Some a3\<rparr>)))))"

text \<open>Line 415 of \<^verbatim>\<open>AnalyticsTab\<close>: the scatter pairs; the array is only read.\<close>

definition AnalyticsTab ::
  "dataset option \<Rightarrow> (real \<times> real) list render \<times> dataset option" where
  "AnalyticsTab data =
     (case data of
        None \<Rightarrow> (ReturnsNull, None)
      | Some d \<Rightarrow>
          (case equipment_data d of
             None \<Rightarrow> (ThrowsTypeError, Some d)
           | Some a0 \<Rightarrow> (Rendered (map (\<lambda>e. (flowrate e, pressure e)) a0), Some d)))"

section \<open>The comparison tab\<close>

record comparison_view =
  cmp_labels :: "string list"
  cmp_health :: "real list"
  cmp_flow :: "real list"
  cmp_pressure :: "real list"
  cmp_uploads :: nat

datatype comparison_render = EmptyState string | Charts comparison_view

text \<open>
  \<^verbatim>\<open>new Date(s)\<close> and \<^verbatim>\<open>toLocaleDateString()\<close> are built-ins that depend on the host:
  \<open>dateValue s\<close> is the time value of \<^verbatim>\<open>new Date(s)\<close> in milliseconds, \<open>None\<close> for an
  invalid date (\<^verbatim>\<open>NaN\<close>), and \<open>localeDate\<close> prints the date part of a time value. The
  comparator is \<^verbatim>\<open>(a, b) => new Date(a.uploaded_at) - new Date(b.uploaded_at)\<close>; a
  \<^verbatim>\<open>NaN\<close> difference counts as \<open>+0\<close> in the sort.
\<close>

definition date_cmp :: "(string \<Rightarrow> int option) \<Rightarrow> history_entry \<Rightarrow> history_entry \<Rightarrow> real" where
  "date_cmp dateValue a b =
     (case (dateValue (h_uploaded_at a), dateValue (h_uploaded_at b)) of
        (Some x, Some y) \<Rightarrow> real_of_int (x - y)
      | _ \<Rightarrow> 0)"

definition no_history_message :: string where
  "no_history_message =
     ''No history data available for comparison. Upload more datasets to see trends.''"

text \<open>
  \<^verbatim>\<open>ComparisonTab\<close>, with the \<^verbatim>\<open>history\<close> array as the call leaves it: the sort works on
  the copy \<^verbatim>\<open>[...history]\<close>, the array itself is only read.
\<close>

definition ComparisonTab ::
  "(string \<Rightarrow> int option) \<Rightarrow> (int option \<Rightarrow> string) \<Rightarrow> history_entry list option \<Rightarrow>
   comparison_render \<times> history_entry list option" where
  "ComparisonTab dateValue localeDate hist =
     (case hist of
        None \<Rightarrow> (EmptyState no_history_message, None)
      | Some h \<Rightarrow>
          if length h = 0
          then (EmptyState no_history_message, Some h)
          else
            (let copy = h;
                 sortedHistory = js_sort (date_cmp dateValue) copy;
                 labels = map (\<lambda>e. localeDate (dateValue (h_uploaded_at e))) sortedHistory
             in (Charts
                   \<lparr>cmp_labels = labels,
                    cmp_health = map h_avg_health_score sortedHistory,
                    cmp_flow = map h_avg_flowrate sortedHistory,
                    cmp_pressure = map h_avg_pressure sortedHistory,
                    cmp_uploads = length h\<rparr>,
                 Some h)))"

text \<open>The time value by which the comparison tab orders an entry with a valid date.\<close>

definition time_of :: "(string \<Rightarrow> int option) \<Rightarrow> history_entry \<Rightarrow> int" where
  "time_of dateValue e = (case dateValue (h_uploaded_at e) of Some t \<Rightarrow> t | None \<Rightarrow> 0)"

section \<open>Concrete inputs\<close>

text \<open>A firing of the interval, and a dashboard whose buffer is full.\<close>

definition sample_env :: tick_env where
  "sample_env = \<lparr>now_label = ''10:00:00'', rand_flow = 1/2, rand_pressure = 1/4, rand_temp = 0\<rparr>"

definition full_dashboard :: dashboard where
  "full_dashboard = initial_dashboard\<lparr>realtimeData := replicate 20 (random_point sample_env)\<rparr>"

text \<open>A dataset of two records, the healthier one first.\<close>

definition pump_a :: equipment where
  "pump_a = \<lparr>name = ''Pump-A'', etype = ''Pump'', flowrate = 120, pressure = 5,
             temperature = 80, health_score = 90\<rparr>"

definition valve_b :: equipment where
  "valve_b = \<lparr>name = ''Valve-B'', etype = ''Valve'', flowrate = 60, pressure = 4,
              temperature = 70, health_score = 10\<rparr>"

definition two_records :: dataset where
  "two_records =
     \<lparr>ds_id = 7, total_equipment = 2, avg_flowrate = Num 90, avg_pressure = Num (9/2),
      avg_health_score = Num 50, equipment_type_distribution = Some [(''Pump'', 1), (''Valve'', 1)],
      equipment_data = Some [pump_a, valve_b]\<rparr>"

text \<open>The dataset of the watchlist example: health scores 10, 90, 5, 50, 99, 30.\<close>

definition unit_with :: "string \<Rightarrow> real \<Rightarrow> equipment" where
  "unit_with n h = \<lparr>name = n, etype = ''Pump'', flowrate = 100, pressure = 5,
                    temperature = 80, health_score = h\<rparr>"

definition six_records :: dataset where
  "six_records =
     \<lparr>ds_id = 3, total_equipment = 6, avg_flowrate = Num 100, avg_pressure = Num 5,
      avg_health_score = Num (142 / 3), equipment_type_distribution = Some [(''Pump'', 6)],
      equipment_data = Some [unit_with ''E1'' 10, unit_with ''E2'' 90, unit_with ''E3'' 5,
                             unit_with ''E4'' 50, unit_with ''E5'' 99, unit_with ''E6'' 30]\<rparr>"

text \<open>A stand-in for the number-to-string conversion of numbers from \<open>10^21\<close> on.\<close>

definition sample_numToString :: "real \<Rightarrow> string" where
  "sample_numToString x = ''1e+21''"

text \<open>The history of the trend example, and the two dates it needs.\<close>

definition march_entry :: history_entry where
  "march_entry = \<lparr>h_id = 2, h_uploaded_at = ''2024-03-01'', h_total_equipment = 6,
                  h_avg_health_score = 70, h_avg_flowrate = 110, h_avg_pressure = 6\<rparr>"

definition january_entry :: history_entry where
  "january_entry = \<lparr>h_id = 1, h_uploaded_at = ''2024-01-01'', h_total_equipment = 4,
                    h_avg_health_score = 60, h_avg_flowrate = 100, h_avg_pressure = 5\<rparr>"

definition sample_dateValue :: "string \<Rightarrow> int option" where
  "sample_dateValue s =
     (if s = ''2024-01-01'' then Some 1704067200000
      else if s = ''2024-03-01'' then Some 1709251200000 else None)"

definition sample_localeDate :: "int option \<Rightarrow> string" where
  "sample_localeDate t =
     (if t = Some 1704067200000 then ''1/1/2024''
      else if t = Some 1709251200000 then ''3/1/2024'' else ''Invalid Date'')"

text \<open>Responses and parsers for the examples of the report protocol.\<close>

definition error_body :: string where
  "error_body = [CHR ''{'', CHR 0x22] @ ''error'' @ [CHR 0x22, CHR '':'', CHR 0x22] @ ''failed'' @
                [CHR 0x22, CHR ''}'']"

definition empty_error_body :: string where
  "empty_error_body = [CHR ''{'', CHR 0x22] @ ''error'' @ [CHR 0x22, CHR '':'', CHR 0x22, CHR 0x22, CHR ''}'']"

definition unprintable_error_body :: string where
  "unprintable_error_body =
     [CHR ''{'', CHR 0x22] @ ''error'' @ [CHR 0x22, CHR '':'', CHR ''{'', CHR 0x22] @ ''toString'' @
     [CHR 0x22, CHR '':'', CHR ''1'', CHR ''}'', CHR ''}'']"

text \<open>
  What \<^verbatim>\<open>JSON.parse\<close> returns on the texts used below; any other text is taken as not
  being JSON.
\<close>

definition sample_jsonParse :: "string \<Rightarrow> jsval option" where
  "sample_jsonParse s =
     (if s = error_body then Some (JObj [(''error'', JStr ''failed'')])
      else if s = empty_error_body then Some (JObj [(''error'', JStr [])])
      else if s = unprintable_error_body
      then Some (JObj [(''error'', JObj [(''toString'', JNum 1)])])
      else if s = ''null'' then Some JNull
      else None)"

text \<open>
  The string conversion on the values used below: an object with an own property
  \<^verbatim>\<open>toString\<close> (which, coming from JSON, is no function) cannot be converted, and any
  other object prints as \<^verbatim>\<open>[object Object]\<close>; the constants print their names. Numbers
  and arrays do not occur below and get a stand-in text.
\<close>

definition sample_toStr :: "jsval \<Rightarrow> string option" where
  "sample_toStr v =
     (case v of
        JObj kvs \<Rightarrow> if map_of kvs ''toString'' = None then Some ''[object Object]'' else None
      | JUndefined \<Rightarrow> Some ''undefined''
      | JNull \<Rightarrow> Some ''null''
      | JBool b \<Rightarrow> Some (if b then ''true'' else ''false'')
      | JStr s \<Rightarrow> Some s
      | JNum x \<Rightarrow> Some ''1''
      | JArr xs \<Rightarrow> Some [])"

section \<open>The stream buffer\<close>

lemma length_push_point: "length prev \<le> 20 \<Longrightarrow> length (push_point prev p) \<le> 20"
  by (simp add: push_point_def Let_def)

lemma push_point_last: "length prev \<le> 20 \<Longrightarrow>
  push_point prev p = drop (length (prev @ [p]) - 20) (prev @ [p])"
proof (cases "length prev = 20")
  case True
  then have "prev \<noteq> []" by auto
  then obtain x xs where "prev = x # xs" by (cases prev) auto
  with True show ?thesis by (simp add: push_point_def Let_def)
next
  case False
  assume "length prev \<le> 20"
  with False show ?thesis by (simp add: push_point_def Let_def)
qed

lemma realtimeData_tick:
  "realtimeData (tick u e s) = push_point (realtimeData s) (new_point u e (playbackIndex s))"
  by (simp add: tick_def Let_def split: option.split)

lemma playbackIndex_tick:
  "playbackIndex (tick u e s) =
     (case playable u of Some eq \<Rightarrow> playbackIndex s + 1 | None \<Rightarrow> playbackIndex s)"
  by (simp add: tick_def Let_def split: option.split)

lemma drop_drop_window:
  fixes b :: "'a list"
  assumes "length b \<le> 20"
  shows "drop (length (drop (length (b @ [p]) - 20) (b @ [p]) @ ps) - 20)
           (drop (length (b @ [p]) - 20) (b @ [p]) @ ps)
         = drop (length (b @ p # ps) - 20) (b @ p # ps)"
proof (cases "length b = 20")
  case True
  then obtain x xs where b: "b = x # xs" by (cases b) auto
  with True have "length xs = 19" by simp
  then show ?thesis using b by (simp add: Suc_diff_le)
next
  case False
  with assms have "length b < 20" by simp
  then show ?thesis by simp
qed

lemma run_ticks_window:
  "length (realtimeData s) \<le> 20 \<Longrightarrow>
   realtimeData (run_ticks u es s) =
     drop (length (realtimeData s @ arrivals u es (playbackIndex s)) - 20)
          (realtimeData s @ arrivals u es (playbackIndex s))"
proof (induction es arbitrary: s)
  case Nil
  then show ?case by simp
next
  case (Cons e es)
  let ?p = "new_point u e (playbackIndex s)"
  let ?s = "tick u e s"
  have len: "length (realtimeData ?s) \<le> 20"
    using Cons.prems by (simp add: realtimeData_tick length_push_point)
  have idx: "playbackIndex ?s = (case playable u of Some eq \<Rightarrow> playbackIndex s + 1 | None \<Rightarrow> playbackIndex s)"
    by (rule playbackIndex_tick)
  have buf: "realtimeData ?s = drop (length (realtimeData s @ [?p]) - 20) (realtimeData s @ [?p])"
    using Cons.prems by (simp only: realtimeData_tick push_point_last)
  have "realtimeData (run_ticks u (e # es) s) = realtimeData (run_ticks u es ?s)" by simp
  also have "\<dots> = drop (length (realtimeData ?s @ arrivals u es (playbackIndex ?s)) - 20)
                     (realtimeData ?s @ arrivals u es (playbackIndex ?s))"
    using Cons.IH [OF len] .
  also have "\<dots> = drop (length (realtimeData s @ ?p # arrivals u es (playbackIndex ?s)) - 20)
                     (realtimeData s @ ?p # arrivals u es (playbackIndex ?s))"
    unfolding buf using drop_drop_window [OF Cons.prems] .
  finally show ?case by (simp add: idx)
qed

lemma length_arrivals: "length (arrivals u es idx) = length es"
  by (induction es arbitrary: idx) auto

text \<open>
  Claim C1. Started from the empty buffer of the initial state, after any sequence of
  firings of the interval callback the buffer \<^verbatim>\<open>realtimeData\<close> holds at most 20 points,
  and they are exactly the last \<open>min 20 n\<close> of the \<open>n\<close> points produced so far, in arrival
  order; every prefix of a sequence is a sequence, so this holds after each firing. On
  a buffer that already holds 20 points a firing drops the oldest point and appends
  the new one.
\<close>

theorem stream_buffer_window:
  "length (realtimeData (run_ticks u es initial_dashboard)) = min 20 (length es) \<and>
   length (realtimeData (run_ticks u es initial_dashboard)) \<le> 20 \<and>
   realtimeData (run_ticks u es initial_dashboard) =
     drop (length es - 20) (arrivals u es 0) \<and>
   length (arrivals u es 0) = length es \<and>
   (length (realtimeData s) = 20 \<longrightarrow>
      realtimeData (tick u e s) =
        tl (realtimeData s) @ [new_point u e (playbackIndex s)])"
proof -
  have init: "length (realtimeData initial_dashboard) \<le> 20"
    by (simp add: initial_dashboard_def)
  have w: "realtimeData (run_ticks u es initial_dashboard) =
     drop (length es - 20) (arrivals u es 0)"
    using run_ticks_window [OF init, of u es]
    by (simp add: initial_dashboard_def length_arrivals)
  have l: "length (realtimeData (run_ticks u es initial_dashboard)) = min 20 (length es)"
    unfolding w by (simp add: length_arrivals)
  have f: "length (realtimeData s) = 20 \<longrightarrow>
      realtimeData (tick u e s) =
        tl (realtimeData s) @ [new_point u e (playbackIndex s)]"
  proof
    assume 20: "length (realtimeData s) = 20"
    then obtain x xs where "realtimeData s = x # xs" by (cases "realtimeData s") auto
    with 20 show "realtimeData (tick u e s) =
        tl (realtimeData s) @ [new_point u e (playbackIndex s)]"
      by (simp add: realtimeData_tick push_point_def Let_def)
  qed
  from w l f show ?thesis by (simp add: length_arrivals)
qed

theorem stream_buffer_window_witness:
  "length (realtimeData full_dashboard) = 20 \<and>
   length (realtimeData (run_ticks None [sample_env, sample_env] initial_dashboard)) = 2 \<and>
   realtimeData (tick None sample_env full_dashboard) =
     tl (realtimeData full_dashboard) @ [new_point None sample_env (playbackIndex full_dashboard)]"
  using stream_buffer_window [of None "[sample_env, sample_env]" full_dashboard sample_env]
  by (simp add: full_dashboard_def)

section \<open>The playback index\<close>

lemma playable_length: "playable u = Some eq \<Longrightarrow> 0 < length eq"
  by (auto simp: playable_def split: option.splits if_splits)

lemma playbackIndex_run_ticks:
  "playable u = Some eq \<Longrightarrow>
   playbackIndex (run_ticks u es s) = playbackIndex s + length es"
  by (induction es arbitrary: s) (simp_all add: playbackIndex_tick)

lemma playbackIndex_run_ticks_fallback:
  "playable u = None \<Longrightarrow> playbackIndex (run_ticks u es s) = playbackIndex s"
  by (induction es arbitrary: s) (simp_all add: playbackIndex_tick)

text \<open>
  Claim C2. Let the active dataset carry \<open>N \<ge> 1\<close> equipment records. Every firing that
  replays a record adds one to \<^verbatim>\<open>playbackIndex\<close>; the state variable itself is a running
  count, and the wrap is taken where it is read, in
  \<^verbatim>\<open>equipment_data[playbackIndex % equipment_data.length]\<close>. So after \<open>N + k\<close> replaying
  firings since the reset to 0 the position of the next record is \<open>k mod N\<close> (and 0
  after exactly \<open>N\<close>), and the next firing replays the record at that position. A
  firing that synthesises a fallback point (no dataset, no \<^verbatim>\<open>equipment_data\<close>, or an
  empty one) leaves the index as it was.
\<close>

theorem playback_index_wraps:
  assumes "playable u = Some eq" and "playbackIndex s = 0" and "length es = length eq + k"
  shows "playbackIndex (tick u e s') = playbackIndex s' + 1 \<and>
         playbackIndex (run_ticks u es s) = length eq + k \<and>
         playback_position eq (playbackIndex (run_ticks u es s)) = k mod length eq \<and>
         (k = 0 \<longrightarrow> playback_position eq (playbackIndex (run_ticks u es s)) = 0) \<and>
         new_point u e (playbackIndex (run_ticks u es s)) =
           replay_point e (eq ! (k mod length eq)) \<and>
         (playable u' = None \<longrightarrow> playbackIndex (tick u' e s') = playbackIndex s')"
proof -
  have one: "playbackIndex (tick u e s') = playbackIndex s' + 1"
    using assms(1) by (simp add: playbackIndex_tick)
  have cnt: "playbackIndex (run_ticks u es s) = length eq + k"
    using assms by (simp add: playbackIndex_run_ticks)
  have pos: "playback_position eq (playbackIndex (run_ticks u es s)) = k mod length eq"
    unfolding cnt by (simp add: playback_position_def)
  have nxt: "new_point u e (playbackIndex (run_ticks u es s)) =
           replay_point e (eq ! (k mod length eq))"
    using assms(1) pos by (simp add: new_point_def)
  have fb: "playable u' = None \<longrightarrow> playbackIndex (tick u' e s') = playbackIndex s'"
    by (simp add: playbackIndex_tick)
  have zero: "k = 0 \<longrightarrow> playback_position eq (playbackIndex (run_ticks u es s)) = 0"
    using pos by simp
  from one cnt pos zero nxt fb show ?thesis by blast
qed

theorem playback_index_wraps_witness:
  "playable (Some two_records) = Some [pump_a, valve_b] \<and>
   playbackIndex initial_dashboard = 0 \<and>
   playable None = None \<and>
   playbackIndex (run_ticks (Some two_records) [sample_env, sample_env, sample_env]
      initial_dashboard) = 3 \<and>
   playback_position [pump_a, valve_b]
     (playbackIndex (run_ticks (Some two_records) [sample_env, sample_env, sample_env]
        initial_dashboard)) = 1 \<and>
   playback_position [pump_a, valve_b]
     (playbackIndex (run_ticks (Some two_records) [sample_env, sample_env]
        initial_dashboard)) = 0 \<and>
   new_point (Some two_records) sample_env
     (playbackIndex (run_ticks (Some two_records) [sample_env, sample_env, sample_env]
        initial_dashboard)) = replay_point sample_env valve_b \<and>
   playbackIndex (tick None sample_env full_dashboard) = playbackIndex full_dashboard"
proof -
  have p: "playable (Some two_records) = Some [pump_a, valve_b]"
    by (simp add: playable_def two_records_def)
  have i: "playbackIndex initial_dashboard = 0"
    by (simp add: initial_dashboard_def)
  have n: "playable None = None"
    by (simp add: playable_def)
  have l3: "length [sample_env, sample_env, sample_env] = length [pump_a, valve_b] + 1"
    by simp
  have l2: "length [sample_env, sample_env] = length [pump_a, valve_b] + 0"
    by simp
  from playback_index_wraps [OF p i l3, where e = sample_env and s' = full_dashboard and u' = None]
       playback_index_wraps [OF p i l2, where e = sample_env and s' = full_dashboard and u' = None]
       p i n
  show ?thesis by (simp add: playback_position_def new_point_def mod_Suc)
qed

section \<open>Replacing the dataset\<close>

lemma run_ticks_after_reset:
  "realtimeData (run_ticks u es (upload_effect (Some d) s)) =
     drop (length es - 20) (arrivals u es 0)"
proof -
  have "length (realtimeData (upload_effect (Some d) s)) \<le> 20"
    by (simp add: upload_effect_def)
  from run_ticks_window [OF this, of u es]
  show ?thesis by (simp add: upload_effect_def length_arrivals)
qed

text \<open>
  Claim C6. When a new dataset becomes the prop \<^verbatim>\<open>uploadData\<close>, the effect of lines 35
  to 40 empties \<^verbatim>\<open>realtimeData\<close> and sets \<^verbatim>\<open>playbackIndex\<close> to 0 in one callback, whatever
  the state was, and touches nothing else; without a dataset it changes nothing. Every
  firing of the interval after that starts from the empty buffer and index 0: the
  buffer and the index after any number of firings are determined by the new dataset
  and the firings alone, with no trace of the earlier state.
\<close>

theorem dataset_replacement_resets:
  "upload_effect (Some d) s = s\<lparr>realtimeData := [], playbackIndex := 0\<rparr> \<and>
   realtimeData (upload_effect (Some d) s) = [] \<and>
   playbackIndex (upload_effect (Some d) s) = 0 \<and>
   upload_effect None s = s \<and>
   realtimeData (run_ticks (Some d) es (upload_effect (Some d) s)) =
     drop (length es - 20) (arrivals (Some d) es 0) \<and>
   playbackIndex (run_ticks (Some d) es (upload_effect (Some d) s)) =
     (case playable (Some d) of Some eq \<Rightarrow> length es | None \<Rightarrow> 0) \<and>
   realtimeData (tick (Some d) e (upload_effect (Some d) s)) = [new_point (Some d) e 0]"
proof -
  have idx: "playbackIndex (run_ticks (Some d) es (upload_effect (Some d) s)) =
     (case playable (Some d) of Some eq \<Rightarrow> length es | None \<Rightarrow> 0)"
  proof (cases "playable (Some d)")
    case None
    then show ?thesis
      by (simp add: playbackIndex_run_ticks_fallback upload_effect_def)
  next
    case (Some eq)
    then show ?thesis
      by (simp add: playbackIndex_run_ticks upload_effect_def)
  qed
  have one: "realtimeData (tick (Some d) e (upload_effect (Some d) s)) = [new_point (Some d) e 0]"
    by (simp add: realtimeData_tick upload_effect_def push_point_def)
  from idx one run_ticks_after_reset [of "Some d" es d s]
  show ?thesis by (simp add: upload_effect_def)
qed

section \<open>Tab selection\<close>

lemma tab_ids_nth: "i < length tab_ids \<Longrightarrow> tab_ids ! i \<in> set tab_ids"
  by simp

lemma activeTab_tick: "activeTab (tick u e s) = activeTab s"
  by (simp add: tick_def Let_def split: option.split)

lemma activeTab_upload_effect: "activeTab (upload_effect u s) = activeTab s"
  by (simp add: upload_effect_def split: option.split)

lemma activeTab_fetchHistory: "activeTab (snd (fetchHistory res s)) = activeTab s"
  by (simp add: fetchHistory_def split: option.split)

lemma activeTab_handleDeleteDataset:
  "activeTab (snd (handleDeleteDataset dsid confirmed deleted res s)) = activeTab s"
  by (simp add: handleDeleteDataset_def activeTab_fetchHistory)

lemma ui_step_tab:
  "activeTab (snd st) \<in> set tab_ids \<Longrightarrow> activeTab (snd (ui_step st ev)) \<in> set tab_ids"
proof (cases st)
  case (Pair u s)
  assume a: "activeTab (snd st) \<in> set tab_ids"
  show ?thesis
  proof (cases ev)
    case (ClickTab i)
    with Pair a show ?thesis using tab_ids_nth [of i] by auto
  next
    case ClickViewHistory
    with Pair a show ?thesis by (auto simp: tab_ids_def)
  next
    case (ClickDelete dsid confirmed deleted res)
    with Pair a show ?thesis by (auto simp add: activeTab_handleDeleteDataset)
  next
    case (HistoryArrives res)
    with Pair a show ?thesis by (simp add: activeTab_fetchHistory)
  next
    case (PropChange u')
    with Pair a show ?thesis by (simp add: activeTab_upload_effect)
  next
    case (Remount u')
    with Pair show ?thesis
      by (simp add: activeTab_upload_effect initial_dashboard_def tab_ids_def)
  next
    case (TimerFires e)
    with Pair a show ?thesis by (simp add: activeTab_tick)
  qed
qed

lemma foldl_ui_step_tab:
  "activeTab (snd st) \<in> set tab_ids \<Longrightarrow>
   activeTab (snd (foldl ui_step st evs)) \<in> set tab_ids"
  by (induction evs arbitrary: st) (simp_all add: ui_step_tab)

text \<open>
  Claim C9. From the initial tab \<^verbatim>\<open>'overview'\<close>, after any sequence of events the active
  tab is one of \<^verbatim>\<open>overview\<close>, \<^verbatim>\<open>analytics\<close>, \<^verbatim>\<open>comparison\<close>, \<^verbatim>\<open>history\<close>. It is never
  \<^verbatim>\<open>'realtime'\<close>, so the guard of the simulation effect is false in every reachable
  state and the interval is never started.
\<close>

theorem realtime_tab_unreachable:
  "activeTab (snd (ui_run u0 evs)) \<in> set tab_ids \<and>
   set tab_ids = {''overview'', ''analytics'', ''comparison'', ''history''} \<and>
   activeTab (snd (ui_run u0 evs)) \<noteq> ''realtime'' \<and>
   \<not> interval_running (snd (ui_run u0 evs))"
proof -
  have "activeTab (snd (u0, initial_dashboard)) \<in> set tab_ids"
    by (simp add: initial_dashboard_def tab_ids_def)
  then have t: "activeTab (snd (ui_run u0 evs)) \<in> set tab_ids"
    unfolding ui_run_def by (rule foldl_ui_step_tab)
  have s: "set tab_ids = {''overview'', ''analytics'', ''comparison'', ''history''}"
    by (simp add: tab_ids_def)
  from t have "activeTab (snd (ui_run u0 evs)) \<in> {''overview'', ''analytics'', ''comparison'', ''history''}"
    by (simp only: s)
  then have r: "activeTab (snd (ui_run u0 evs)) \<noteq> ''realtime''"
    by auto
  from t s r show ?thesis by (simp only: interval_running_def simp_thms)
qed

section \<open>The watchlist\<close>

text \<open>
  On records whose keys are compared exactly, the comparator sort is the stable sort by
  key of the list library, \<open>sort_key\<close>.
\<close>

lemma sort_insert_key:
  "x \<in> A \<Longrightarrow> set ys \<subseteq> A \<Longrightarrow>
   (\<And>a b. a \<in> A \<Longrightarrow> b \<in> A \<Longrightarrow> (cmp a b \<le> 0) = (f a \<le> f b)) \<Longrightarrow>
   sort_insert cmp x ys = insort_key f x ys"
  by (induction ys) auto

lemma js_sort_key:
  assumes "set xs \<subseteq> A"
    and "\<And>a b. a \<in> A \<Longrightarrow> b \<in> A \<Longrightarrow> (cmp a b \<le> 0) = (f a \<le> f b)"
  shows "js_sort cmp xs = sort_key f xs"
  using assms(1)
proof (induction xs)
  case Nil
  then show ?case by (simp add: js_sort_def)
next
  case (Cons x xs)
  then have "js_sort cmp xs = sort_key f xs" by simp
  moreover have "set (sort_key f xs) \<subseteq> A" using Cons.prems by simp
  ultimately show ?case
    using Cons.prems sort_insert_key [of x A "sort_key f xs" cmp f] assms(2)
    by (simp add: js_sort_def)
qed

lemma js_sort_health: "js_sort health_cmp xs = sort_key health_score xs"
  by (rule js_sort_key [of xs UNIV]) (auto simp: health_cmp_def)

lemma sort_key_twice: "sort_key f (sort_key f xs) = sort_key f xs"
  by (simp add: sort_key_id_if_sorted)

lemma OverviewTab_sorted:
  "equipment_data d = Some a0 \<Longrightarrow>
   OverviewTab f (Some d) =
     (Rendered
        \<lparr>health_value = fst (system_health_card f (avg_health_score d)),
         health_color = snd (system_health_card f (avg_health_score d)),
         doughnut_labels = map fst (case equipment_type_distribution d of None \<Rightarrow> [] | Some kv \<Rightarrow> kv),
         doughnut_data = map snd (case equipment_type_distribution d of None \<Rightarrow> [] | Some kv \<Rightarrow> kv),
         watch_labels = map name (take 5 (sort_key health_score a0)),
         watch_data = map health_score (take 5 (sort_key health_score a0)),
         watch_colors = map watch_color (take 5 (sort_key health_score a0)),
         line_labels = map name (take 20 (sort_key health_score a0)),
         line_pressure = map pressure (take 20 (sort_key health_score a0)),
         line_flow = map flowrate (take 20 (sort_key health_score a0))\<rparr>,
      Some (d\<lparr>equipment_data := Some (sort_key health_score a0)\<rparr>))"
  by (simp add: OverviewTab_def Let_def js_sort_health sort_key_twice)

lemma sorted_take_drop:
  "sorted (map f xs) \<Longrightarrow> \<forall>x\<in>set (take n xs). \<forall>y\<in>set (drop n xs). f x \<le> f y"
proof -
  assume "sorted (map f xs)"
  then have "sorted (map f (take n xs) @ map f (drop n xs))"
    by (simp flip: map_append)
  then show ?thesis by (auto simp: sorted_append)
qed

text \<open>
  Claim C5. For a dataset with equipment records, the watchlist chart shows the first
  five records (all of them when there are fewer) of the records sorted by
  \<^verbatim>\<open>health_score\<close>: the scores ascend, every record shown has a score no higher than
  any record left out, records with equal scores keep their original order (the sorted
  list restricted to one score is the original list restricted to it), and label,
  score and colour at one position belong to the same original record. The bar is red
  exactly when the score is below 50 and amber from 50 on. For the scores
  10, 90, 5, 50, 99, 30 the chart shows 5, 10, 30, 50, 90 (the witness).
\<close>

theorem watchlist_lowest_five:
  assumes "equipment_data d = Some a0"
  shows "\<exists>v d'. OverviewTab f (Some d) = (Rendered v, d') \<and>
           watch_labels v = map name (take 5 (sort_key health_score a0)) \<and>
           watch_data v = map health_score (take 5 (sort_key health_score a0)) \<and>
           watch_colors v = map watch_color (take 5 (sort_key health_score a0)) \<and>
           length (watch_data v) = min 5 (length a0) \<and>
           sorted (watch_data v) \<and>
           (\<forall>x\<in>set (take 5 (sort_key health_score a0)).
              \<forall>y\<in>set (drop 5 (sort_key health_score a0)). health_score x \<le> health_score y) \<and>
           mset (sort_key health_score a0) = mset a0 \<and>
           (\<forall>k. filter (\<lambda>e. health_score e = k) (sort_key health_score a0) =
                 filter (\<lambda>e. health_score e = k) a0) \<and>
           (\<forall>e. (watch_color e = ''rgba(239, 68, 68, 0.7)'') = (health_score e < 50)) \<and>
           (\<forall>e. (watch_color e = ''rgba(245, 158, 11, 0.7)'') = (50 \<le> health_score e))"
proof -
  let ?S = "sort_key health_score a0"
  have srt: "sorted (map health_score ?S)" by simp
  have low: "\<forall>x\<in>set (take 5 ?S). \<forall>y\<in>set (drop 5 ?S). health_score x \<le> health_score y"
    using srt by (rule sorted_take_drop)
  have asc: "sorted (map health_score (take 5 ?S))"
    using srt by (simp add: sorted_wrt_take flip: take_map)
  have stab: "\<forall>k. filter (\<lambda>e. health_score e = k) ?S = filter (\<lambda>e. health_score e = k) a0"
    by (simp add: sort_key_stable)
  have col1: "\<forall>e. (watch_color e = ''rgba(239, 68, 68, 0.7)'') = (health_score e < 50)"
    by (simp add: watch_color_def)
  have col2: "\<forall>e. (watch_color e = ''rgba(245, 158, 11, 0.7)'') = (50 \<le> health_score e)"
    by (auto simp add: watch_color_def)
  show ?thesis
    unfolding OverviewTab_sorted [OF assms]
    using low asc stab col1 col2 by simp
qed

theorem watchlist_lowest_five_witness:
  "equipment_data six_records =
     Some [unit_with ''E1'' 10, unit_with ''E2'' 90, unit_with ''E3'' 5,
           unit_with ''E4'' 50, unit_with ''E5'' 99, unit_with ''E6'' 30] \<and>
   (\<exists>v d'. OverviewTab sample_numToString (Some six_records) = (Rendered v, d') \<and>
      watch_data v = [5, 10, 30, 50, 90] \<and>
      watch_labels v = [''E3'', ''E1'', ''E6'', ''E4'', ''E2''] \<and>
      watch_colors v = [''rgba(239, 68, 68, 0.7)'', ''rgba(239, 68, 68, 0.7)'',
                        ''rgba(239, 68, 68, 0.7)'', ''rgba(245, 158, 11, 0.7)'',
                        ''rgba(245, 158, 11, 0.7)''])"
proof -
  have e: "equipment_data six_records =
     Some [unit_with ''E1'' 10, unit_with ''E2'' 90, unit_with ''E3'' 5,
           unit_with ''E4'' 50, unit_with ''E5'' 99, unit_with ''E6'' 30]"
    by (simp add: six_records_def)
  have s: "sort_key health_score [unit_with ''E1'' 10, unit_with ''E2'' 90, unit_with ''E3'' 5,
           unit_with ''E4'' 50, unit_with ''E5'' 99, unit_with ''E6'' 30] =
        [unit_with ''E3'' 5, unit_with ''E1'' 10, unit_with ''E6'' 30,
           unit_with ''E4'' 50, unit_with ''E2'' 90, unit_with ''E5'' 99]"
    by (simp add: unit_with_def)
  from watchlist_lowest_five [OF e, of sample_numToString] e
  show ?thesis
    unfolding s by (auto simp add: unit_with_def watch_color_def)
qed

lemma AnalyticsTab_reads_only: "snd (AnalyticsTab data) = data"
  by (simp add: AnalyticsTab_def split: option.split)

lemma ComparisonTab_reads_only: "snd (ComparisonTab dateValue localeDate hist) = hist"
  by (simp add: ComparisonTab_def Let_def split: option.split)

text \<open>
  Claim C3 fails for the watchlist. \<^verbatim>\<open>equipment_data.sort(...)\<close> sorts the array of the
  dataset object itself: for a dataset holding Pump-A (health 90) before Valve-B
  (health 10), the dataset holds Valve-B before Pump-A once \<^verbatim>\<open>OverviewTab\<close> has rendered,
  and the line chart of the same render already lists the records in that order.
  \<^verbatim>\<open>ComparisonTab\<close> sorts a copy, \<^verbatim>\<open>[...history]\<close>, and leaves its input alone, as
  \<^verbatim>\<open>AnalyticsTab\<close> does.
\<close>

theorem watchlist_sorts_in_place:
  "equipment_data two_records = Some [pump_a, valve_b] \<and>
   snd (OverviewTab sample_numToString (Some two_records)) =
     Some (two_records\<lparr>equipment_data := Some [valve_b, pump_a]\<rparr>) \<and>
   snd (OverviewTab sample_numToString (Some two_records)) \<noteq> Some two_records \<and>
   (\<exists>v d'. OverviewTab sample_numToString (Some two_records) = (Rendered v, d') \<and>
      line_labels v = [''Valve-B'', ''Pump-A''])"
proof -
  have e: "equipment_data two_records = Some [pump_a, valve_b]"
    by (simp add: two_records_def)
  have s: "sort_key health_score [pump_a, valve_b] = [valve_b, pump_a]"
    by (simp add: pump_a_def valve_b_def)
  have n: "[valve_b, pump_a] \<noteq> [pump_a, valve_b]"
    by (simp add: pump_a_def valve_b_def)
  have "two_records\<lparr>equipment_data := Some [valve_b, pump_a]\<rparr> \<noteq> two_records"
  proof
    assume "two_records\<lparr>equipment_data := Some [valve_b, pump_a]\<rparr> = two_records"
    then have "equipment_data (two_records\<lparr>equipment_data := Some [valve_b, pump_a]\<rparr>) = equipment_data two_records"
      by simp
    with e n show False by simp
  qed
  then show ?thesis
    using e by (simp add: OverviewTab_sorted [OF e] s) (simp add: pump_a_def valve_b_def)
qed

section \<open>The system health card\<close>

lemma digit_char_value: "d < 10 \<Longrightarrow> of_char (digit_char d) = 48 + d"
proof -
  assume "d < 10"
  then have "d \<in> {0, 1, 2, 3, 4, 5, 6, 7, 8, 9}"
    by auto
  then show ?thesis by (auto simp add: digit_char_def)
qed

lemma decimal_value_digits: "decimal_value (digits n) = n"
proof (induction n rule: digits.induct)
  case (1 n)
  show ?case
  proof (cases "n < 10")
    case True
    then show ?thesis
      by (simp add: digits.simps [of n] decimal_value_def digit_char_value)
  next
    case False
    with 1 have "decimal_value (digits (n div 10)) = n div 10" by simp
    with False show ?thesis
      by (simp add: digits.simps [of n] decimal_value_def digit_char_value)
  qed
qed

lemma nearest_integer:
  fixes y :: real
  assumes "0 \<le> y"
  shows "\<bar>real (nat \<lfloor>y + 1 / 2\<rfloor>) - y\<bar> \<le> 1 / 2"
proof -
  have "0 \<le> \<lfloor>y + 1 / 2\<rfloor>" using assms by simp
  then have "real (nat \<lfloor>y + 1 / 2\<rfloor>) = of_int \<lfloor>y + 1 / 2\<rfloor>" by simp
  then show ?thesis by linarith
qed

lemma OverviewTab_card:
  "equipment_data d = Some a0 \<Longrightarrow>
   \<exists>v d'. OverviewTab f (Some d) = (Rendered v, d') \<and>
     health_value v = fst (system_health_card f (avg_health_score d)) \<and>
     health_color v = snd (system_health_card f (avg_health_score d))"
  by (simp add: OverviewTab_def Let_def)

text \<open>
  Claim C10. When \<^verbatim>\<open>avg_health_score\<close> is 0, \<^verbatim>\<open>null\<close> or missing, the card shows
  \<^verbatim>\<open>85%\<close>, the fallback of \<^verbatim>\<open>avg_health_score || 85\<close>, while its colour is still
  decided by \<^verbatim>\<open>avg_health_score < 70\<close> on the raw field: red for 0 and for \<^verbatim>\<open>null\<close>,
  emerald for a missing field. For a number other than 0 (of magnitude below \<open>10^21\<close>,
  where \<^verbatim>\<open>toFixed\<close> prints plain digits) the card shows the sign, the digits of a
  nearest integer to the magnitude, and \<^verbatim>\<open>%\<close>. The card of the rendered overview is
  this value and this colour.
\<close>

theorem system_health_fallback:
  "fst (system_health_card f Undefined) = ''85%'' \<and>
   fst (system_health_card f Null) = ''85%'' \<and>
   fst (system_health_card f (Num 0)) = ''85%'' \<and>
   snd (system_health_card f v) = (if js_lt_num v 70 then ''red'' else ''emerald'') \<and>
   js_lt_num (Num x) 70 = (x < 70) \<and>
   snd (system_health_card f (Num 0)) = ''red'' \<and>
   snd (system_health_card f Null) = ''red'' \<and>
   snd (system_health_card f Undefined) = ''emerald'' \<and>
   (x \<noteq> 0 \<and> \<bar>x\<bar> < 10 ^ 21 \<longrightarrow>
      fst (system_health_card f (Num x)) =
        (if x < 0 then ''-'' else []) @ digits (nat \<lfloor>\<bar>x\<bar> + 1 / 2\<rfloor>) @ ''%'' \<and>
      decimal_value (digits (nat \<lfloor>\<bar>x\<bar> + 1 / 2\<rfloor>)) = nat \<lfloor>\<bar>x\<bar> + 1 / 2\<rfloor> \<and>
      \<bar>real (nat \<lfloor>\<bar>x\<bar> + 1 / 2\<rfloor>) - \<bar>x\<bar>\<bar> \<le> 1 / 2) \<and>
   (equipment_data d = Some a0 \<longrightarrow>
      (\<exists>w d'. OverviewTab f (Some d) = (Rendered w, d') \<and>
         health_value w = fst (system_health_card f (avg_health_score d)) \<and>
         health_color w = snd (system_health_card f (avg_health_score d))))"
proof -
  have d85: "digits 85 = ''85''"
    by (simp add: digits.simps digit_char_def)
  have fl: "nat \<lfloor>(85::real) + 1 / 2\<rfloor> = 85" by simp
  have fb: "fst (system_health_card f Undefined) = ''85%''"
    "fst (system_health_card f Null) = ''85%''"
    "fst (system_health_card f (Num 0)) = ''85%''"
    by (simp_all add: system_health_card_def toFixed0_def js_or_num_def fl d85 Let_def)
  have col: "snd (system_health_card f v) = (if js_lt_num v 70 then ''red'' else ''emerald'')"
    by (simp add: system_health_card_def)
  have lt: "js_lt_num (Num x) 70 = (x < 70)"
    by (simp add: js_lt_num_def)
  have cs: "snd (system_health_card f (Num 0)) = ''red''"
    "snd (system_health_card f Null) = ''red''"
    "snd (system_health_card f Undefined) = ''emerald''"
    by (simp_all add: system_health_card_def js_lt_num_def)
  have rnd: "x \<noteq> 0 \<and> \<bar>x\<bar> < 10 ^ 21 \<longrightarrow>
      fst (system_health_card f (Num x)) =
        (if x < 0 then ''-'' else []) @ digits (nat \<lfloor>\<bar>x\<bar> + 1 / 2\<rfloor>) @ ''%'' \<and>
      decimal_value (digits (nat \<lfloor>\<bar>x\<bar> + 1 / 2\<rfloor>)) = nat \<lfloor>\<bar>x\<bar> + 1 / 2\<rfloor> \<and>
      \<bar>real (nat \<lfloor>\<bar>x\<bar> + 1 / 2\<rfloor>) - \<bar>x\<bar>\<bar> \<le> 1 / 2"
  proof (intro impI conjI)
    assume a: "x \<noteq> 0 \<and> \<bar>x\<bar> < 10 ^ 21"
    show "fst (system_health_card f (Num x)) =
        (if x < 0 then ''-'' else []) @ digits (nat \<lfloor>\<bar>x\<bar> + 1 / 2\<rfloor>) @ ''%''"
    proof (cases "x < 0")
      case True
      with a have "\<not> (- x \<ge> 10 ^ 21)" "\<bar>x\<bar> = - x" by auto
      with True a show ?thesis
        by (simp add: system_health_card_def toFixed0_def js_or_num_def Let_def)
    next
      case False
      with a have "\<not> (x \<ge> 10 ^ 21)" "\<bar>x\<bar> = x" by auto
      with False a show ?thesis
        by (simp add: system_health_card_def toFixed0_def js_or_num_def Let_def)
    qed
    show "decimal_value (digits (nat \<lfloor>\<bar>x\<bar> + 1 / 2\<rfloor>)) = nat \<lfloor>\<bar>x\<bar> + 1 / 2\<rfloor>"
      by (rule decimal_value_digits)
    show "\<bar>real (nat \<lfloor>\<bar>x\<bar> + 1 / 2\<rfloor>) - \<bar>x\<bar>\<bar> \<le> 1 / 2"
      by (rule nearest_integer) simp
  qed
  have ov: "equipment_data d = Some a0 \<longrightarrow>
      (\<exists>w d'. OverviewTab f (Some d) = (Rendered w, d') \<and>
         health_value w = fst (system_health_card f (avg_health_score d)) \<and>
         health_color w = snd (system_health_card f (avg_health_score d)))"
    using OverviewTab_card [of d a0 f] by blast
  from fb col lt cs rnd ov show ?thesis
    by blast
qed

theorem system_health_fallback_witness:
  "(846 / 10 :: real) \<noteq> 0 \<and> \<bar>846 / 10 :: real\<bar> < 10 ^ 21 \<and>
   equipment_data two_records = Some [pump_a, valve_b] \<and>
   fst (system_health_card sample_numToString (Num (846 / 10))) = ''85%'' \<and>
   snd (system_health_card sample_numToString (Num (846 / 10))) = ''emerald'' \<and>
   (\<exists>w d'. OverviewTab sample_numToString (Some two_records) = (Rendered w, d') \<and>
      health_value w = ''50%'' \<and> health_color w = ''red'')"
proof -
  have e: "equipment_data two_records = Some [pump_a, valve_b]"
    by (simp add: two_records_def)
  have a: "avg_health_score two_records = Num 50"
    by (simp add: two_records_def)
  have d: "digits 85 = ''85''" "digits 50 = ''50''"
    by (simp_all add: digits.simps digit_char_def)
  have c50: "system_health_card sample_numToString (Num 50) = (''50%'', ''red'')"
    by (simp add: system_health_card_def toFixed0_def js_or_num_def js_lt_num_def d Let_def)
  from system_health_fallback [of sample_numToString "Num (846 / 10)" "846 / 10" two_records "[pump_a, valve_b]"]
  show ?thesis
    by (simp add: e a d c50 js_lt_num_def)
qed

section \<open>The history trend\<close>

lemma date_cmp_sign:
  assumes "dateValue (h_uploaded_at a) \<noteq> None" and "dateValue (h_uploaded_at b) \<noteq> None"
  shows "(date_cmp dateValue a b \<le> 0) = (time_of dateValue a \<le> time_of dateValue b)"
  using assms by (auto simp: date_cmp_def time_of_def)

lemma js_sort_dates:
  assumes "\<forall>e\<in>set h. dateValue (h_uploaded_at e) \<noteq> None"
  shows "js_sort (date_cmp dateValue) h = sort_key (time_of dateValue) h"
proof (rule js_sort_key [of h "{e. dateValue (h_uploaded_at e) \<noteq> None}"])
  show "set h \<subseteq> {e. dateValue (h_uploaded_at e) \<noteq> None}"
    using assms by auto
next
  fix a b :: history_entry
  assume "a \<in> {e. dateValue (h_uploaded_at e) \<noteq> None}"
    and "b \<in> {e. dateValue (h_uploaded_at e) \<noteq> None}"
  then show "(date_cmp dateValue a b \<le> 0) = (time_of dateValue a \<le> time_of dateValue b)"
    by (simp add: date_cmp_sign)
qed

text \<open>
  Claim C8. For a history whose \<^verbatim>\<open>uploaded_at\<close> values are valid dates,
  \<^verbatim>\<open>ComparisonTab\<close> charts the entries sorted ascending by date (entries of equal date
  in their stored order): one label per entry, the date printed by
  \<^verbatim>\<open>toLocaleDateString\<close>, and the three series of averages, all in the sorted order.
  The sort works on a copy, so the stored list is returned as it was. For the history
  2024-03-01, 2024-01-01 the January entry comes first (the witness). An empty or
  missing history renders the empty-state message and raises nothing.
\<close>

theorem history_trend_sorted:
  assumes "\<forall>e\<in>set h. dateValue (h_uploaded_at e) \<noteq> None" and "h \<noteq> []"
  shows "ComparisonTab dateValue localeDate (Some h) =
           (Charts
              \<lparr>cmp_labels = map (\<lambda>e. localeDate (dateValue (h_uploaded_at e)))
                              (sort_key (time_of dateValue) h),
               cmp_health = map h_avg_health_score (sort_key (time_of dateValue) h),
               cmp_flow = map h_avg_flowrate (sort_key (time_of dateValue) h),
               cmp_pressure = map h_avg_pressure (sort_key (time_of dateValue) h),
               cmp_uploads = length h\<rparr>,
            Some h) \<and>
         sorted (map (time_of dateValue) (sort_key (time_of dateValue) h)) \<and>
         mset (sort_key (time_of dateValue) h) = mset h \<and>
         length (sort_key (time_of dateValue) h) = length h \<and>
         (\<forall>t. filter (\<lambda>e. time_of dateValue e = t) (sort_key (time_of dateValue) h) =
               filter (\<lambda>e. time_of dateValue e = t) h) \<and>
         ComparisonTab dateValue localeDate (Some []) = (EmptyState no_history_message, Some []) \<and>
         ComparisonTab dateValue localeDate None = (EmptyState no_history_message, None)"
proof -
  have main: "ComparisonTab dateValue localeDate (Some h) =
           (Charts
              \<lparr>cmp_labels = map (\<lambda>e. localeDate (dateValue (h_uploaded_at e)))
                              (sort_key (time_of dateValue) h),
               cmp_health = map h_avg_health_score (sort_key (time_of dateValue) h),
               cmp_flow = map h_avg_flowrate (sort_key (time_of dateValue) h),
               cmp_pressure = map h_avg_pressure (sort_key (time_of dateValue) h),
               cmp_uploads = length h\<rparr>,
            Some h)"
    using assms(2) by (simp add: ComparisonTab_def Let_def js_sort_dates [OF assms(1)])
  have stab: "\<forall>t. filter (\<lambda>e. time_of dateValue e = t) (sort_key (time_of dateValue) h) =
               filter (\<lambda>e. time_of dateValue e = t) h"
    by (simp add: sort_key_stable)
  have empty: "ComparisonTab dateValue localeDate (Some []) = (EmptyState no_history_message, Some [])"
    "ComparisonTab dateValue localeDate None = (EmptyState no_history_message, None)"
    by (simp_all add: ComparisonTab_def)
  from main stab empty show ?thesis by simp
qed

theorem history_trend_sorted_witness:
  "sample_dateValue (h_uploaded_at march_entry) = Some 1709251200000 \<and>
   sample_dateValue (h_uploaded_at january_entry) = Some 1704067200000 \<and>
   length [march_entry, january_entry] = 2 \<and>
   ComparisonTab sample_dateValue sample_localeDate (Some [march_entry, january_entry]) =
     (Charts \<lparr>cmp_labels = [''1/1/2024'', ''3/1/2024''], cmp_health = [60, 70],
              cmp_flow = [100, 110], cmp_pressure = [5, 6], cmp_uploads = 2\<rparr>,
      Some [march_entry, january_entry])"
proof -
  have v: "\<forall>e\<in>set [march_entry, january_entry]. sample_dateValue (h_uploaded_at e) \<noteq> None"
    by (simp add: march_entry_def january_entry_def sample_dateValue_def)
  have n: "[march_entry, january_entry] \<noteq> []" by simp
  have s: "sort_key (time_of sample_dateValue) [march_entry, january_entry] =
             [january_entry, march_entry]"
    by (simp add: time_of_def sample_dateValue_def march_entry_def january_entry_def)
  note c = history_trend_sorted [OF v n, of sample_localeDate, THEN conjunct1, unfolded s]
  have l: "map (\<lambda>e. sample_localeDate (sample_dateValue (h_uploaded_at e)))
             [january_entry, march_entry] = [''1/1/2024'', ''3/1/2024'']"
    by (simp add: march_entry_def january_entry_def sample_dateValue_def sample_localeDate_def)
  have d: "sample_dateValue (h_uploaded_at march_entry) = Some 1709251200000"
    "sample_dateValue (h_uploaded_at january_entry) = Some 1704067200000"
    by (simp_all add: march_entry_def january_entry_def sample_dateValue_def)
  show ?thesis
    unfolding c l using d by (simp add: march_entry_def january_entry_def)
qed

section \<open>Deleting a dataset\<close>

text \<open>
  Claim C7. \<^verbatim>\<open>handleDeleteDataset\<close> first asks for confirmation, and the delete request
  is among its effects exactly when the user confirmed. Declined, the confirmation
  dialog is the only effect and the state is unchanged. After a successful delete it
  runs \<^verbatim>\<open>fetchHistory\<close>, which requests the list and stores what it receives (or logs
  and keeps the list when the request fails). After a failed delete it logs, alerts the
  user and leaves the state, the history list included, unchanged.
\<close>

theorem remove_dataset_protocol:
  "handleDeleteDataset i False deleted res s = ([Confirm (confirm_message i)], s) \<and>
   hd (fst (handleDeleteDataset i c deleted res s)) = Confirm (confirm_message i) \<and>
   (HttpDelete (delete_url i) \<in> set (fst (handleDeleteDataset i c deleted res s))) = c \<and>
   fst (handleDeleteDataset i True True res s) =
     [Confirm (confirm_message i), HttpDelete (delete_url i)] @ fst (fetchHistory res s) \<and>
   snd (handleDeleteDataset i True True res s) = snd (fetchHistory res s) \<and>
   HttpGet ''datasets/history/'' \<in> set (fst (fetchHistory res s)) \<and>
   history (snd (fetchHistory (Some data) s)) = data \<and>
   history (snd (fetchHistory None s)) = history s \<and>
   handleDeleteDataset i True False res s =
     ([Confirm (confirm_message i), HttpDelete (delete_url i),
       ConsoleError ''Failed to delete dataset'',
       Alert ''Failed to delete dataset. Please try again.''], s)"
proof -
  have nodel: "HttpDelete (delete_url i) \<notin> set (fst (fetchHistory res s))"
    by (simp add: fetchHistory_def split: option.split)
  have req: "(HttpDelete (delete_url i) \<in> set (fst (handleDeleteDataset i c deleted res s))) = c"
    using nodel by (simp add: handleDeleteDataset_def)
  have get: "HttpGet ''datasets/history/'' \<in> set (fst (fetchHistory res s))"
    by (simp add: fetchHistory_def split: option.split)
  have hist: "history (snd (fetchHistory (Some data) s)) = data"
    "history (snd (fetchHistory None s)) = history s"
    by (simp_all add: fetchHistory_def)
  have rest: "handleDeleteDataset i False deleted res s = ([Confirm (confirm_message i)], s)"
    "hd (fst (handleDeleteDataset i c deleted res s)) = Confirm (confirm_message i)"
    "fst (handleDeleteDataset i True True res s) =
     [Confirm (confirm_message i), HttpDelete (delete_url i)] @ fst (fetchHistory res s)"
    "snd (handleDeleteDataset i True True res s) = snd (fetchHistory res s)"
    "handleDeleteDataset i True False res s =
     ([Confirm (confirm_message i), HttpDelete (delete_url i),
       ConsoleError ''Failed to delete dataset'',
       Alert ''Failed to delete dataset. Please try again.''], s)"
    by (simp_all add: handleDeleteDataset_def)
  from req get hist rest show ?thesis by blast
qed

section \<open>Downloading a report\<close>

lemma property_error_defined:
  "(property_error v \<noteq> None) = (v \<noteq> JNull \<and> v \<noteq> JUndefined)"
  by (cases v) (simp_all add: property_error_def)

text \<open>
  Claim C4 says that after a successful parse the alert carries the value of the
  \<^verbatim>\<open>error\<close> field, the generic message standing in only for an absent field. For the
  body \<^verbatim>\<open>{"error":""}\<close> the field is present with the empty string as its value, and
  the alert carries the generic message: \<^verbatim>\<open>errObj.error || "..."\<close> falls back on every
  falsy value.
\<close>

theorem report_error_field_counterexample:
  "possibly_error \<lparr>blob_type = ''application/json'', blob_bytes = empty_error_body\<rparr> \<and>
   sample_jsonParse empty_error_body = Some (JObj [(''error'', JStr [])]) \<and>
   map_of [(''error'', JStr [])] ''error'' = Some (JStr []) \<and>
   handleDownloadReport sample_jsonParse sample_toStr 7
     (Resolved \<lparr>blob_type = ''application/json'', blob_bytes = empty_error_body\<rparr>) =
     [HttpGet ''reports/7/pdf/'', ReadAsText,
      Alert ''Report Error: Generation failed on server.''] \<and>
   handleDownloadReport sample_jsonParse sample_toStr 7
     (Resolved \<lparr>blob_type = ''application/json'', blob_bytes = empty_error_body\<rparr>) \<noteq>
     [HttpGet ''reports/7/pdf/'', ReadAsText, Alert (''Report Error: '' @ [])]"
  by (simp add: handleDownloadReport_def possibly_error_def sample_jsonParse_def
      property_error_def js_truthy_def template_string_def report_url_def
      digits.simps digit_char_def empty_error_body_def error_body_def)

text \<open>
  The body \<^verbatim>\<open>null\<close> parses, but reading \<^verbatim>\<open>errObj.error\<close> then throws inside the
  \<^verbatim>\<open>try\<close>, and the \<^verbatim>\<open>catch\<close> saves the four bytes as a report.
\<close>

lemma report_null_body_saved:
  "handleDownloadReport sample_jsonParse sample_toStr 7
     (Resolved \<lparr>blob_type = ''application/json'', blob_bytes = ''null''\<rparr>) =
     [HttpGet ''reports/7/pdf/'', ReadAsText, CreateObjectURL,
      ClickDownloadLink ''Analysis_Report_#7.pdf'', RemoveLink, RevokeObjectURL]"
  by (simp add: handleDownloadReport_def possibly_error_def sample_jsonParse_def
      property_error_def report_url_def report_filename_def
      digits.simps digit_char_def empty_error_body_def error_body_def
      unprintable_error_body_def)

text \<open>
  The body \<^verbatim>\<open>{"error":{"toString":1}}\<close> parses and its \<^verbatim>\<open>error\<close> is truthy, but the
  template literal cannot convert it to a string: the \<^verbatim>\<open>TypeError\<close> is thrown inside the
  \<^verbatim>\<open>try\<close>, before \<^verbatim>\<open>alert\<close> is called, and the \<^verbatim>\<open>catch\<close> saves the payload.
\<close>

lemma report_unprintable_error_saved:
  "handleDownloadReport sample_jsonParse sample_toStr 7
     (Resolved \<lparr>blob_type = ''application/json'', blob_bytes = unprintable_error_body\<rparr>) =
     [HttpGet ''reports/7/pdf/'', ReadAsText, CreateObjectURL,
      ClickDownloadLink ''Analysis_Report_#7.pdf'', RemoveLink, RevokeObjectURL]"
  by (simp add: handleDownloadReport_def possibly_error_def sample_jsonParse_def
      property_error_def js_truthy_def template_string_def sample_toStr_def
      report_url_def report_filename_def digits.simps digit_char_def
      empty_error_body_def error_body_def unprintable_error_body_def)

text \<open>
  Claim C4, amended. A response whose declared type is \<^verbatim>\<open>application/json\<close> or whose
  size is below 500 bytes is read as text and parsed. When the parse succeeds with a
  value whose \<^verbatim>\<open>error\<close> property can be read (any value but \<^verbatim>\<open>null\<close>) and the message
  converts to a string, the only effect after the read is the alert
  \<^verbatim>\<open>Report Error: <message>\<close>, and no file is saved. The message is the value of the
  \<^verbatim>\<open>error\<close> property if that value is truthy, and the generic message otherwise
  (property absent, or empty, 0, \<^verbatim>\<open>false\<close> or \<^verbatim>\<open>null\<close>); a string converts to itself
  and the generic message is a string, so for a string-valued or falsy \<^verbatim>\<open>error\<close> the
  conversion always succeeds. When the parse fails the blob is saved as
  \<^verbatim>\<open>Analysis_Report_#<id>.pdf\<close>. Every other response is saved directly under that name.
\<close>

theorem report_disambiguation:
  "(possibly_error b \<and> jsonParse (blob_bytes b) = Some errObj \<and> property_error errObj = Some e \<and>
    template_string toStr (if js_truthy e then e else JStr ''Generation failed on server.'') = Some m
    \<longrightarrow>
      handleDownloadReport jsonParse toStr i (Resolved b) =
        [HttpGet (report_url i), ReadAsText, Alert (''Report Error: '' @ m)]) \<and>
   (possibly_error b \<and> jsonParse (blob_bytes b) = Some errObj \<and> property_error errObj = Some e \<and>
    \<not> js_truthy e \<longrightarrow>
      handleDownloadReport jsonParse toStr i (Resolved b) =
        [HttpGet (report_url i), ReadAsText,
         Alert ''Report Error: Generation failed on server.'']) \<and>
   (possibly_error b \<and> jsonParse (blob_bytes b) = Some errObj \<and>
    property_error errObj = Some (JStr msg) \<and> msg \<noteq> [] \<longrightarrow>
      handleDownloadReport jsonParse toStr i (Resolved b) =
        [HttpGet (report_url i), ReadAsText, Alert (''Report Error: '' @ msg)]) \<and>
   (property_error (JObj kvs) =
      Some (case map_of kvs ''error'' of Some x \<Rightarrow> x | None \<Rightarrow> JUndefined)) \<and>
   (property_error errObj \<noteq> None) = (errObj \<noteq> JNull \<and> errObj \<noteq> JUndefined) \<and>
   template_string toStr (JStr msg) = Some msg \<and>
   js_truthy (JStr msg) = (msg \<noteq> []) \<and>
   \<not> js_truthy JUndefined \<and> \<not> js_truthy JNull \<and> \<not> js_truthy (JBool False) \<and>
   \<not> js_truthy (JNum 0) \<and>
   (possibly_error b \<and> jsonParse (blob_bytes b) = None \<longrightarrow>
      handleDownloadReport jsonParse toStr i (Resolved b) =
        [HttpGet (report_url i), ReadAsText, CreateObjectURL,
         ClickDownloadLink (report_filename i), RemoveLink, RevokeObjectURL]) \<and>
   (\<not> possibly_error b \<longrightarrow>
      handleDownloadReport jsonParse toStr i (Resolved b) =
        [HttpGet (report_url i), CreateObjectURL, ClickDownloadLink (report_filename i),
         SetTimeout 200 [RemoveLink, RevokeObjectURL]]) \<and>
   possibly_error b = (blob_type b = ''application/json'' \<or> length (blob_bytes b) < 500) \<and>
   report_filename i = ''Analysis_Report_#'' @ digits i @ ''.pdf''"
proof -
  have alert: "possibly_error b \<and> jsonParse (blob_bytes b) = Some errObj \<and>
      property_error errObj = Some e \<and>
      template_string toStr (if js_truthy e then e else JStr ''Generation failed on server.'') = Some m
    \<longrightarrow>
      handleDownloadReport jsonParse toStr i (Resolved b) =
        [HttpGet (report_url i), ReadAsText, Alert (''Report Error: '' @ m)]"
    by (simp add: handleDownloadReport_def)
  have falsy: "possibly_error b \<and> jsonParse (blob_bytes b) = Some errObj \<and>
      property_error errObj = Some e \<and> \<not> js_truthy e \<longrightarrow>
      handleDownloadReport jsonParse toStr i (Resolved b) =
        [HttpGet (report_url i), ReadAsText,
         Alert ''Report Error: Generation failed on server.'']"
    by (simp add: handleDownloadReport_def template_string_def)
  have str: "possibly_error b \<and> jsonParse (blob_bytes b) = Some errObj \<and>
      property_error errObj = Some (JStr msg) \<and> msg \<noteq> [] \<longrightarrow>
      handleDownloadReport jsonParse toStr i (Resolved b) =
        [HttpGet (report_url i), ReadAsText, Alert (''Report Error: '' @ msg)]"
    by (simp add: handleDownloadReport_def template_string_def js_truthy_def)
  have vals: "property_error (JObj kvs) =
      Some (case map_of kvs ''error'' of Some x \<Rightarrow> x | None \<Rightarrow> JUndefined)"
    "template_string toStr (JStr msg) = Some msg"
    "js_truthy (JStr msg) = (msg \<noteq> [])"
    "\<not> js_truthy JUndefined" "\<not> js_truthy JNull" "\<not> js_truthy (JBool False)"
    "\<not> js_truthy (JNum 0)"
    by (simp_all add: property_error_def template_string_def js_truthy_def)
  have save: "possibly_error b \<and> jsonParse (blob_bytes b) = None \<longrightarrow>
      handleDownloadReport jsonParse toStr i (Resolved b) =
        [HttpGet (report_url i), ReadAsText, CreateObjectURL,
         ClickDownloadLink (report_filename i), RemoveLink, RevokeObjectURL]"
    "\<not> possibly_error b \<longrightarrow>
      handleDownloadReport jsonParse toStr i (Resolved b) =
        [HttpGet (report_url i), CreateObjectURL, ClickDownloadLink (report_filename i),
         SetTimeout 200 [RemoveLink, RevokeObjectURL]]"
    by (simp_all add: handleDownloadReport_def)
  have defs: "possibly_error b = (blob_type b = ''application/json'' \<or> length (blob_bytes b) < 500)"
    "report_filename i = ''Analysis_Report_#'' @ digits i @ ''.pdf''"
    by (simp_all add: possibly_error_def report_filename_def)
  from alert falsy str vals property_error_defined [of errObj] save defs
  show ?thesis by blast
qed

theorem report_disambiguation_witness:
  "possibly_error \<lparr>blob_type = ''application/json'', blob_bytes = error_body\<rparr> \<and>
   sample_jsonParse error_body = Some (JObj [(''error'', JStr ''failed'')]) \<and>
   property_error (JObj [(''error'', JStr ''failed'')]) = Some (JStr ''failed'') \<and>
   template_string sample_toStr
     (if js_truthy (JStr ''failed'') then JStr ''failed''
      else JStr ''Generation failed on server.'') = Some ''failed'' \<and>
   handleDownloadReport sample_jsonParse sample_toStr 7
     (Resolved \<lparr>blob_type = ''application/json'', blob_bytes = error_body\<rparr>) =
     [HttpGet ''reports/7/pdf/'', ReadAsText, Alert ''Report Error: failed''] \<and>
   possibly_error \<lparr>blob_type = ''application/json'', blob_bytes = empty_error_body\<rparr> \<and>
   sample_jsonParse empty_error_body = Some (JObj [(''error'', JStr [])]) \<and>
   property_error (JObj [(''error'', JStr [])]) = Some (JStr []) \<and>
   js_truthy (JStr []) = False \<and>
   handleDownloadReport sample_jsonParse sample_toStr 7
     (Resolved \<lparr>blob_type = ''application/json'', blob_bytes = empty_error_body\<rparr>) =
     [HttpGet ''reports/7/pdf/'', ReadAsText,
      Alert ''Report Error: Generation failed on server.''] \<and>
   possibly_error \<lparr>blob_type = ''application/pdf'', blob_bytes = replicate 200 (CHR ''x'')\<rparr> \<and>
   sample_jsonParse (replicate 200 (CHR ''x'')) = None \<and>
   handleDownloadReport sample_jsonParse sample_toStr 7
     (Resolved \<lparr>blob_type = ''application/pdf'', blob_bytes = replicate 200 (CHR ''x'')\<rparr>) =
     [HttpGet ''reports/7/pdf/'', ReadAsText, CreateObjectURL,
      ClickDownloadLink ''Analysis_Report_#7.pdf'', RemoveLink, RevokeObjectURL] \<and>
   possibly_error \<lparr>blob_type = ''application/pdf'', blob_bytes = replicate 10000 (CHR ''x'')\<rparr>
     = False \<and>
   handleDownloadReport sample_jsonParse sample_toStr 7
     (Resolved \<lparr>blob_type = ''application/pdf'', blob_bytes = replicate 10000 (CHR ''x'')\<rparr>) =
     [HttpGet ''reports/7/pdf/'', CreateObjectURL, ClickDownloadLink ''Analysis_Report_#7.pdf'',
      SetTimeout 200 [RemoveLink, RevokeObjectURL]]"
proof -
  let ?j = "\<lparr>blob_type = ''application/json'', blob_bytes = error_body\<rparr>"
  let ?e = "\<lparr>blob_type = ''application/json'', blob_bytes = empty_error_body\<rparr>"
  let ?s = "\<lparr>blob_type = ''application/pdf'', blob_bytes = replicate 200 (CHR ''x'')\<rparr>"
  let ?p = "\<lparr>blob_type = ''application/pdf'', blob_bytes = replicate 10000 (CHR ''x'')\<rparr>"
  have h1: "possibly_error ?j" "possibly_error ?e" "possibly_error ?s" "\<not> possibly_error ?p"
    by (simp_all add: possibly_error_def)
  have h2: "sample_jsonParse (blob_bytes ?j) = Some (JObj [(''error'', JStr ''failed'')])"
    "sample_jsonParse (blob_bytes ?e) = Some (JObj [(''error'', JStr [])])"
    by (simp_all add: sample_jsonParse_def error_body_def empty_error_body_def)
  have h3: "property_error (JObj [(''error'', JStr ''failed'')]) = Some (JStr ''failed'')"
    "property_error (JObj [(''error'', JStr [])]) = Some (JStr [])"
    by (simp_all add: property_error_def)
  have h5: "template_string sample_toStr
     (if js_truthy (JStr ''failed'') then JStr ''failed''
      else JStr ''Generation failed on server.'') = Some ''failed''"
    "\<not> js_truthy (JStr [])"
    by (simp_all add: template_string_def js_truthy_def)
  have ne: "replicate 200 (CHR ''x'') \<noteq> error_body" "replicate 200 (CHR ''x'') \<noteq> empty_error_body"
    "replicate 200 (CHR ''x'') \<noteq> unprintable_error_body"
    "replicate 200 (CHR ''x'') \<noteq> ''null''"
  proof -
    have "length (replicate 200 (CHR ''x'')) \<noteq> length error_body"
      "length (replicate 200 (CHR ''x'')) \<noteq> length empty_error_body"
      "length (replicate 200 (CHR ''x'')) \<noteq> length unprintable_error_body"
      "length (replicate 200 (CHR ''x'')) \<noteq> length ''null''"
      by (simp_all add: error_body_def empty_error_body_def unprintable_error_body_def)
    then show "replicate 200 (CHR ''x'') \<noteq> error_body" "replicate 200 (CHR ''x'') \<noteq> empty_error_body"
      "replicate 200 (CHR ''x'') \<noteq> unprintable_error_body"
      "replicate 200 (CHR ''x'') \<noteq> ''null''"
      by fastforce+
  qed
  have h4: "sample_jsonParse (blob_bytes ?s) = None"
    using ne by (simp add: sample_jsonParse_def)
  have d7: "digits 7 = ''7''"
    by (simp add: digits.simps digit_char_def)
  note t = report_disambiguation [where toStr = sample_toStr and i = 7 and jsonParse = sample_jsonParse]
  have a: "handleDownloadReport sample_jsonParse sample_toStr 7 (Resolved ?j) =
     [HttpGet ''reports/7/pdf/'', ReadAsText, Alert ''Report Error: failed'']"
    using t [where b = ?j and errObj = "JObj [(''error'', JStr ''failed'')]" and e = "JStr ''failed''"
               and m = "''failed''"]
      h1 h2 h3 h5
    by (simp add: report_url_def d7)
  have f: "handleDownloadReport sample_jsonParse sample_toStr 7 (Resolved ?e) =
     [HttpGet ''reports/7/pdf/'', ReadAsText, Alert ''Report Error: Generation failed on server.'']"
    using t [where b = ?e and errObj = "JObj [(''error'', JStr [])]" and e = "JStr []"]
      h1 h2 h3 h5
    by (simp add: report_url_def d7)
  have b: "handleDownloadReport sample_jsonParse sample_toStr 7 (Resolved ?s) =
     [HttpGet ''reports/7/pdf/'', ReadAsText, CreateObjectURL,
      ClickDownloadLink ''Analysis_Report_#7.pdf'', RemoveLink, RevokeObjectURL]"
    using t [where b = ?s] h1 h4
    by (simp add: report_url_def d7)
  have c: "handleDownloadReport sample_jsonParse sample_toStr 7 (Resolved ?p) =
     [HttpGet ''reports/7/pdf/'', CreateObjectURL, ClickDownloadLink ''Analysis_Report_#7.pdf'',
      SetTimeout 200 [RemoveLink, RevokeObjectURL]]"
    using t [where b = ?p] h1
    by (simp add: report_url_def d7)
  from h1 h2 h3 h4 h5 a f b c show ?thesis by simp
qed

end
